theory Spec2Isabelle
  imports Main "HOL-Library.Signed_Division" "HOL-Library.AList"
begin

section \<open>Time, errors and strings\<close>

text \<open>
  \<^verbatim>\<open>time.Duration\<close> is an \<^verbatim>\<open>int64\<close> count of nanoseconds. It is modelled as
  \<open>int\<close>; the only operation of the program that can leave the 64-bit range is the
  multiplication in \<^verbatim>\<open>fetchTokenFromURL\<close>, where the wrap-around is written out
  (\<open>int64_wrap\<close>). Go's \<^verbatim>\<open>/\<close> truncates towards zero: \<open>sdiv\<close>.

  \<^verbatim>\<open>time.Time\<close> is modelled as the number of nanoseconds since the zero \<^verbatim>\<open>Time\<close>
  (\<^verbatim>\<open>time.Time{}\<close>), so that \<^verbatim>\<open>IsZero\<close> is equality with 0, \<^verbatim>\<open>Add\<close> is addition and
  \<^verbatim>\<open>After\<close> is \<open>>\<close>.
\<close>

type_synonym duration = int
type_synonym time = int

definition Second :: duration where
  "Second = 1000000000"

definition defaultExpiryBuffer :: duration where
  "defaultExpiryBuffer = 30 * Second"

definition zero_Time :: time where
  "zero_Time = 0"

definition IsZero :: "time \<Rightarrow> bool" where
  "IsZero t \<longleftrightarrow> t = 0"

definition After :: "time \<Rightarrow> time \<Rightarrow> bool" where
  "After t u \<longleftrightarrow> t > u"

definition Add :: "time \<Rightarrow> duration \<Rightarrow> time" where
  "Add t d = t + d"

definition int64_wrap :: "int \<Rightarrow> int" where
  "int64_wrap x = (x + 2 ^ 63) mod 2 ^ 64 - 2 ^ 63"

text \<open>
  Errors are values. \<^verbatim>\<open>errors.New(msg)\<close> is \<open>errors_New msg\<close>; an error produced
  outside the program (network, JSON decoding, a caller-supplied refresh function, a body
  regeneration function) is \<open>external_error\<close>.
\<close>

datatype error = errors_New string | external_error string

text \<open>
  The error taxonomy of the specification, read off the messages that the program
  creates.
\<close>

datatype error_kind = NotConfigured | EmptyCredential | RefreshHTTPError | OtherError

fun classify :: "error \<Rightarrow> error_kind" where
  "classify (errors_New m) =
     (if m = ''token provider is not configured'' \<or> m = ''token refresh is not configured''
         \<or> m = ''token fetcher or refresh must be configured'' then NotConfigured
      else if m = ''token is empty'' \<or> m = ''token refresh returned empty token''
        then EmptyCredential
      else if m = ''token refresh returned non-200'' then RefreshHTTPError
      else OtherError)"
| "classify (external_error m) = OtherError"

text \<open>
  \<^verbatim>\<open>strings.TrimSpace\<close> removes leading and trailing white space. Strings are
  sequences of bytes; the white space modelled is the ASCII white space of Go's
  \<^verbatim>\<open>asciiSpace\<close> table (tab, line feed, vertical tab, form feed, carriage return, space).
\<close>

definition isSpace :: "char \<Rightarrow> bool" where
  "isSpace c \<longleftrightarrow> c \<in> set [CHR 0x09, CHR 0x0A, CHR 0x0B, CHR 0x0C, CHR 0x0D, CHR '' '']"

definition TrimSpace :: "string \<Rightarrow> string" where
  "TrimSpace s = rev (dropWhile isSpace (rev (dropWhile isSpace s)))"

section \<open>Requests, responses and the observable history\<close>

datatype reqBody = BodyNil | NoBody | BodyReader string

text \<open>
  The fields of \<^verbatim>\<open>http.Request\<close> that the program reads or writes. The request's
  context is the pair of values stored under the two private keys: \<open>ctx_tokenErrorKey\<close>
  (an error, when present) and \<open>ctx_tokenRetryKey\<close> (\<open>None\<close> is Go's \<^verbatim>\<open>nil\<close>).
  \<^verbatim>\<open>GetBody\<close> is \<^verbatim>\<open>nil\<close> or a function; it is called at most once, so it is given by
  the outcome of that call.
\<close>

record request =
  url :: string
  Header :: "(string \<times> string) list"
  Body :: reqBody
  GetBody :: "(error + reqBody) option"
  ctx_tokenErrorKey :: "error option"
  ctx_tokenRetryKey :: "bool option"

record response =
  StatusCode :: int
  RespBody :: "string option"

definition StatusOK :: int where
  "StatusOK = 200"

definition StatusUnauthorized :: int where
  "StatusUnauthorized = 401"

definition StatusBadGateway :: int where
  "StatusBadGateway = 502"

definition Header_Set :: "string \<Rightarrow> string \<Rightarrow> request \<Rightarrow> request" where
  "Header_Set k v req = req\<lparr>Header := AList.update k v (Header req)\<rparr>"

text \<open>
  Every interaction with the outside world is recorded: a request handed to the
  innermost transport, a call of the refresh function, the closing of a response body.
  The outside world answers as a function of the history so far.
\<close>

datatype event = EvDispatch request | EvRefresh | EvCloseBody response

fun isDispatch :: "event \<Rightarrow> bool" where
  "isDispatch (EvDispatch r) = True"
| "isDispatch e = False"

fun isRefresh :: "event \<Rightarrow> bool" where
  "isRefresh EvRefresh = True"
| "isRefresh e = False"

definition dispatches :: "event list \<Rightarrow> nat" where
  "dispatches tr = length (filter isDispatch tr)"

definition refreshes :: "event list \<Rightarrow> nat" where
  "refreshes tr = length (filter isRefresh tr)"

type_synonym clock = "nat \<Rightarrow> time"
type_synonym backend = "event list \<Rightarrow> request \<Rightarrow> error + response"

text \<open>
  \<open>ticks\<close> counts the calls of \<^verbatim>\<open>time.Now\<close>; the \<open>k\<close>-th call returns \<open>clock k\<close>.
\<close>

record world =
  ticks :: nat
  trace :: "event list"

definition time_Now :: "clock \<Rightarrow> world \<Rightarrow> time \<times> world" where
  "time_Now clock w = (clock (ticks w), w\<lparr>ticks := Suc (ticks w)\<rparr>)"

section \<open>The credential provider\<close>

type_synonym TokenRefreshFunc = "event list \<Rightarrow> error + string"
type_synonym tokenRefreshFunc = "event list \<Rightarrow> error + (string \<times> duration)"
type_synonym TokenFetcherFunc = "unit \<Rightarrow> string"

record tokenProvider =
  token :: string
  refreshAt :: time
  fetch :: "TokenFetcherFunc option"
  refresh :: "tokenRefreshFunc option"

definition current :: "tokenProvider \<Rightarrow> string" where
  "current p = token p"

definition set_token :: "string \<Rightarrow> tokenProvider \<Rightarrow> tokenProvider" where
  "set_token tok p = p\<lparr>token := tok\<rparr>"

text \<open>
  The local variable \<^verbatim>\<open>buffer\<close> of \<^verbatim>\<open>setWithExpiry\<close>, for \<^verbatim>\<open>expiresIn > 0\<close>: the
  three conditional assignments in the order of the source.
\<close>

definition expiryBuffer :: "duration \<Rightarrow> duration" where
  "expiryBuffer expiresIn =
     (let buffer = defaultExpiryBuffer;
          buffer = (if expiresIn sdiv 10 > 0 \<and> expiresIn sdiv 10 < buffer
                    then expiresIn sdiv 10 else buffer);
          buffer = (if expiresIn < buffer then expiresIn sdiv 2 else buffer);
          buffer = (if expiresIn \<ge> 2 * Second \<and> buffer < Second then Second else buffer)
      in buffer)"

definition setWithExpiry ::
  "clock \<Rightarrow> string \<Rightarrow> duration \<Rightarrow> tokenProvider \<Rightarrow> world \<Rightarrow> tokenProvider \<times> world" where
  "setWithExpiry clock tok expiresIn p w =
     (if expiresIn > 0 then
        (let buffer = expiryBuffer expiresIn;
             (now, w1) = time_Now clock w;
             expiresAt = Add now expiresIn
         in (p\<lparr>refreshAt := Add expiresAt (- buffer), token := tok\<rparr>, w1))
      else (p\<lparr>refreshAt := zero_Time, token := tok\<rparr>, w))"

definition call_refresh ::
  "tokenRefreshFunc \<Rightarrow> world \<Rightarrow> (error + (string \<times> duration)) \<times> world" where
  "call_refresh rf w = (rf (trace w), w\<lparr>trace := trace w @ [EvRefresh]\<rparr>)"

text \<open>
  The condition of line 98, with Go's short-circuit evaluation: the clock is read only
  when the token is not blank and \<^verbatim>\<open>refreshAt\<close> is not the zero time.
\<close>

definition needsRefresh :: "clock \<Rightarrow> tokenProvider \<Rightarrow> world \<Rightarrow> bool \<times> world" where
  "needsRefresh clock p w =
     (if TrimSpace (token p) = [] then (True, w)
      else if IsZero (refreshAt p) then (False, w)
      else (let (now, w1) = time_Now clock w in (After now (refreshAt p), w1)))"

text \<open>The receiver is a pointer: \<open>None\<close> is the \<^verbatim>\<open>nil\<close> provider.\<close>

definition ensureToken ::
  "clock \<Rightarrow> tokenProvider option \<Rightarrow> world \<Rightarrow> (error + string) \<times> tokenProvider option \<times> world"
  where
  "ensureToken clock po w =
     (case po of
        None \<Rightarrow> (Inl (errors_New ''token provider is not configured''), None, w)
      | Some p \<Rightarrow>
          (case refresh p of
             None \<Rightarrow>
               if TrimSpace (token p) = [] then (Inl (errors_New ''token is empty''), Some p, w)
               else (Inr (token p), Some p, w)
           | Some rf \<Rightarrow>
               (case needsRefresh clock p w of
                  (True, w1) \<Rightarrow>
                    (case call_refresh rf w1 of
                       (Inl err, w2) \<Rightarrow> (Inl err, Some p, w2)
                     | (Inr (tok, expiresIn), w2) \<Rightarrow>
                         (let tok' = TrimSpace tok in
                          if tok' = [] then (Inl (errors_New ''token is empty''), Some p, w2)
                          else (let (p', w3) = setWithExpiry clock tok' expiresIn p w2
                                in (Inr (token p'), Some p', w3))))
                | (False, w1) \<Rightarrow> (Inr (token p), Some p, w1))))"

definition forceRefresh ::
  "clock \<Rightarrow> tokenProvider option \<Rightarrow> world \<Rightarrow> (error + string) \<times> tokenProvider option \<times> world"
  where
  "forceRefresh clock po w =
     (case po of
        None \<Rightarrow> (Inl (errors_New ''token refresh is not configured''), None, w)
      | Some p \<Rightarrow>
          (case refresh p of
             None \<Rightarrow> (Inl (errors_New ''token refresh is not configured''), Some p, w)
           | Some rf \<Rightarrow>
               (case call_refresh rf w of
                  (Inl err, w1) \<Rightarrow> (Inl err, Some p, w1)
                | (Inr (tok, expiresIn), w1) \<Rightarrow>
                    (let tok' = TrimSpace tok in
                     if tok' = [] then (Inl (errors_New ''token is empty''), Some p, w1)
                     else (let (p', w2) = setWithExpiry clock tok' expiresIn p w1
                           in (Inr tok', Some p', w2))))))"

text \<open>
  Calling \<^verbatim>\<open>ensureToken\<close> several times in a row, as successive requests do; the
  results are collected in order.
\<close>

fun ensureToken_repeat ::
  "clock \<Rightarrow> nat \<Rightarrow> tokenProvider option \<Rightarrow> world
    \<Rightarrow> (error + string) list \<times> tokenProvider option \<times> world" where
  "ensureToken_repeat clock 0 po w = ([], po, w)"
| "ensureToken_repeat clock (Suc n) po w =
     (case ensureToken clock po w of
        (r, po1, w1) \<Rightarrow>
          (case ensureToken_repeat clock n po1 w1 of
             (rs, po2, w2) \<Rightarrow> (r # rs, po2, w2)))"

section \<open>The two transports\<close>

type_synonym state = "tokenProvider option \<times> world"
type_synonym RoundTripper = "request \<Rightarrow> state \<Rightarrow> (error + response) \<times> state"

text \<open>
  The innermost transport (\<^verbatim>\<open>proxy.Transport\<close> or \<^verbatim>\<open>http.DefaultTransport\<close>): the
  request goes to the backend, whose answer may depend on everything that happened
  before.
\<close>

definition baseTransport :: "backend \<Rightarrow> RoundTripper" where
  "baseTransport net req st =
     (case st of (po, w) \<Rightarrow>
        (net (trace w) req, (po, w\<lparr>trace := trace w @ [EvDispatch req]\<rparr>)))"

definition tokenErrorTransport_RoundTrip :: "RoundTripper \<Rightarrow> RoundTripper" where
  "tokenErrorTransport_RoundTrip base req st =
     (case ctx_tokenErrorKey req of
        Some err \<Rightarrow> (Inl err, st)
      | None \<Rightarrow> base req st)"

text \<open>Lines 173 to 175: the body of the rejected response is closed when there is one.\<close>

definition closeBody :: "response \<Rightarrow> world \<Rightarrow> world" where
  "closeBody resp w =
     (if RespBody resp \<noteq> None then w\<lparr>trace := trace w @ [EvCloseBody resp]\<rparr> else w)"

text \<open>
  Lines 177 to 186: the clone carrying the retry marker, its body regenerated when
  \<^verbatim>\<open>GetBody\<close> is set, and the new authorization header. A failing \<^verbatim>\<open>GetBody\<close> ends
  the call.
\<close>

definition replayRequest :: "request \<Rightarrow> string \<Rightarrow> error + request" where
  "replayRequest req tok =
     (let newReq = req\<lparr>ctx_tokenRetryKey := Some True\<rparr> in
      case GetBody req of
        Some (Inl bodyErr) \<Rightarrow> Inl bodyErr
      | Some (Inr b) \<Rightarrow> Inr (Header_Set ''Authorization'' (''Bearer '' @ tok) (newReq\<lparr>Body := b\<rparr>))
      | None \<Rightarrow> Inr (Header_Set ''Authorization'' (''Bearer '' @ tok) newReq))"

definition tokenRetryTransport_RoundTrip :: "clock \<Rightarrow> RoundTripper \<Rightarrow> RoundTripper" where
  "tokenRetryTransport_RoundTrip clock base req st =
     (case base req st of
        (Inl err, st1) \<Rightarrow> (Inl err, st1)
      | (Inr resp, (po, w1)) \<Rightarrow>
          if StatusCode resp \<noteq> StatusUnauthorized then (Inr resp, (po, w1))
          else if ctx_tokenRetryKey req \<noteq> None then (Inr resp, (po, w1))
          else
            (case po of
               None \<Rightarrow> (Inr resp, (po, w1))
             | Some p \<Rightarrow>
                 if refresh p = None then (Inr resp, (po, w1))
                 else if Body req \<noteq> BodyNil \<and> Body req \<noteq> NoBody \<and> GetBody req = None
                   then (Inr resp, (po, w1))
                 else
                   (case forceRefresh clock po w1 of
                      (Inl err, po2, w2) \<Rightarrow> (Inl err, (po2, w2))
                    | (Inr tok, po2, w2) \<Rightarrow>
                        (let w3 = closeBody resp w2 in
                         case replayRequest req tok of
                           Inl bodyErr \<Rightarrow> (Inl bodyErr, (po2, w3))
                         | Inr newReq \<Rightarrow> base newReq (po2, w3)))))"

section \<open>Construction and the request pipeline\<close>

record proxyConfig =
  cfg_provider :: tokenProvider

text \<open>
  \<^verbatim>\<open>fetchTokenFromURL\<close> talks to the token endpoint. What the endpoint does is given
  by the outcome of each step: building the request, \<^verbatim>\<open>client.Do\<close> (an error, or a
  status code together with the outcome of decoding the body as JSON).
  \<^verbatim>\<open>ExpiresIn\<close> is an \<^verbatim>\<open>int64\<close>.
\<close>

record payload =
  AccessToken :: string
  ExpiresIn :: int

record token_exchange =
  NewRequest_err :: "error option"
  Do_result :: "error + (int \<times> (error + payload))"

definition fetchTokenFromURL :: "token_exchange \<Rightarrow> error + (string \<times> duration)" where
  "fetchTokenFromURL x =
     (case NewRequest_err x of
        Some err \<Rightarrow> Inl err
      | None \<Rightarrow>
          (case Do_result x of
             Inl err \<Rightarrow> Inl err
           | Inr (status, decoded) \<Rightarrow>
               if status \<noteq> StatusOK then Inl (errors_New ''token refresh returned non-200'')
               else
                 (case decoded of
                    Inl err \<Rightarrow> Inl err
                  | Inr pl \<Rightarrow>
                      if TrimSpace (AccessToken pl) = []
                        then Inl (errors_New ''token refresh returned empty token'')
                      else if ExpiresIn pl \<le> 0 then Inr (AccessToken pl, 0)
                      else Inr (AccessToken pl, int64_wrap (ExpiresIn pl * Second)))))"

type_synonym token_endpoint = "string \<Rightarrow> event list \<Rightarrow> token_exchange"

text \<open>
  A \<^verbatim>\<open>ProxyOption\<close> is a function on the configuration; the package offers three
  constructors and the configuration type is private, so every option is one of these.
  \<open>applyOption\<close> is the function that the constructor returns.
\<close>

datatype ProxyOption =
    WithTokenFetcherFunc "TokenFetcherFunc option"
  | WithTokenRefreshFunc "TokenRefreshFunc option"
  | WithTokenRefreshURL string

fun applyOption :: "token_endpoint \<Rightarrow> ProxyOption \<Rightarrow> proxyConfig \<Rightarrow> proxyConfig" where
  "applyOption endpoint (WithTokenFetcherFunc f) cfg =
     (case f of
        None \<Rightarrow> cfg
      | Some g \<Rightarrow> cfg\<lparr>cfg_provider := (cfg_provider cfg)\<lparr>fetch := Some g\<rparr>\<rparr>)"
| "applyOption endpoint (WithTokenRefreshFunc f) cfg =
     (case f of
        None \<Rightarrow> cfg
      | Some g \<Rightarrow>
          cfg\<lparr>cfg_provider := (cfg_provider cfg)\<lparr>refresh :=
            Some (\<lambda>tr. case g tr of Inl err \<Rightarrow> Inl err | Inr tok \<Rightarrow> Inr (tok, 0))\<rparr>\<rparr>)"
| "applyOption endpoint (WithTokenRefreshURL tokenURL) cfg =
     (if TrimSpace tokenURL = [] then cfg
      else cfg\<lparr>cfg_provider := (cfg_provider cfg)\<lparr>refresh :=
             Some (\<lambda>tr. fetchTokenFromURL (endpoint tokenURL tr))\<rparr>\<rparr>)"

definition new_tokenProvider :: tokenProvider where
  "new_tokenProvider = \<lparr>token = [], refreshAt = zero_Time, fetch = None, refresh = None\<rparr>"

text \<open>
  \<^verbatim>\<open>newReverseProxy\<close>, as far as the provider is concerned: the result is the parsed
  target and the provider that the director and the retry transport share.
  \<^verbatim>\<open>url.Parse\<close> and the token endpoint are parameters.
\<close>

definition newReverseProxy ::
  "token_endpoint \<Rightarrow> (string \<Rightarrow> error + string) \<Rightarrow> string \<Rightarrow> ProxyOption list
    \<Rightarrow> error + (string \<times> tokenProvider)"
  where
  "newReverseProxy endpoint url_Parse backendURL opts =
     (if TrimSpace backendURL = [] then Inl (errors_New ''backend URL is required'')
      else
        (case url_Parse backendURL of
           Inl err \<Rightarrow> Inl err
         | Inr target \<Rightarrow>
             (let cfg = foldl (\<lambda>c opt. applyOption endpoint opt c)
                          \<lparr>cfg_provider = new_tokenProvider\<rparr> opts;
                  p = cfg_provider cfg
              in if fetch p = None \<and> refresh p = None
                   then Inl (errors_New ''token fetcher or refresh must be configured'')
                 else
                   (case fetch p of
                      None \<Rightarrow> Inr (target, p)
                    | Some f \<Rightarrow>
                        (let initial = TrimSpace (f ()) in
                         if initial \<noteq> [] then Inr (target, set_token initial p)
                         else Inr (target, p))))))"

text \<open>
  \<^verbatim>\<open>proxy.Director\<close> (lines 250 to 260). \<open>baseDirector\<close> is the director of
  \<^verbatim>\<open>NewSingleHostReverseProxy\<close>, a parameter.
\<close>

definition Director ::
  "clock \<Rightarrow> (request \<Rightarrow> request) \<Rightarrow> request \<Rightarrow> state \<Rightarrow> request \<times> state" where
  "Director clock baseDirector req st =
     (case st of (po, w) \<Rightarrow>
        (let req1 = baseDirector req in
         case ensureToken clock po w of
           (Inl err, po1, w1) \<Rightarrow> (req1\<lparr>ctx_tokenErrorKey := Some err\<rparr>, (po1, w1))
         | (Inr tok, po1, w1) \<Rightarrow>
             (Header_Set ''Authorization'' (''Bearer '' @ tok) req1, (po1, w1))))"

text \<open>
  \<^verbatim>\<open>proxy.Transport\<close> as \<^verbatim>\<open>newReverseProxy\<close> builds it (lines 267 to 270).
\<close>

definition proxyTransport :: "clock \<Rightarrow> backend \<Rightarrow> RoundTripper" where
  "proxyTransport clock net =
     tokenRetryTransport_RoundTrip clock (tokenErrorTransport_RoundTrip (baseTransport net))"

text \<open>
  The forwarding engine calls the director, then the transport, and renders a transport
  failure with \<^verbatim>\<open>proxy.ErrorHandler\<close> (lines 272 to 275).
\<close>

definition ErrorHandler :: "error \<Rightarrow> response" where
  "ErrorHandler err = \<lparr>StatusCode = StatusBadGateway, RespBody = Some ''proxy error''\<rparr>"

definition forward ::
  "clock \<Rightarrow> (request \<Rightarrow> request) \<Rightarrow> backend \<Rightarrow> request \<Rightarrow> state
    \<Rightarrow> (error + response) \<times> state" where
  "forward clock baseDirector net req st =
     (case Director clock baseDirector req st of
        (outreq, st1) \<Rightarrow> proxyTransport clock net outreq st1)"

definition ServeHTTP ::
  "clock \<Rightarrow> (request \<Rightarrow> request) \<Rightarrow> backend \<Rightarrow> request \<Rightarrow> state \<Rightarrow> response \<times> state" where
  "ServeHTTP clock baseDirector net req st =
     (case forward clock baseDirector net req st of
        (Inl err, st1) \<Rightarrow> (ErrorHandler err, st1)
      | (Inr resp, st1) \<Rightarrow> (resp, st1))"

section \<open>The expiry buffer as the specification words it\<close>

text \<open>
  The four steps of the specification's buffer algorithm, for a time unit of \<open>u\<close> clock
  ticks and a time-to-live \<open>ttl\<close> in ticks.
\<close>

definition spec_buffer :: "int \<Rightarrow> int \<Rightarrow> int" where
  "spec_buffer u ttl =
     (let b = 30 * u;
          b = (if 0 < ttl div 10 \<and> ttl div 10 < b then ttl div 10 else b);
          b = (if ttl < b then ttl div 2 else b);
          b = (if 2 * u \<le> ttl \<and> b < 1 * u then 1 * u else b)
      in b)"

definition spec_installWithTTL :: "int \<Rightarrow> time \<Rightarrow> string \<Rightarrow> int \<Rightarrow> string \<times> time" where
  "spec_installWithTTL u now tok ttl =
     (if ttl \<le> 0 then (tok, 0) else (tok, now + ttl - spec_buffer u ttl))"

section \<open>Providers that the program can hold\<close>

text \<open>
  A provider is created by \<^verbatim>\<open>newReverseProxy\<close> and afterwards changed only by
  \<^verbatim>\<open>ensureToken\<close> and \<^verbatim>\<open>forceRefresh\<close>.
\<close>

inductive reachable :: "tokenProvider \<Rightarrow> bool" where
  built: "newReverseProxy endpoint url_Parse backendURL opts = Inr (target, p) \<Longrightarrow> reachable p"
| ensured: "reachable p \<Longrightarrow> ensureToken clock (Some p) w = (r, Some p', w') \<Longrightarrow> reachable p'"
| refreshed: "reachable p \<Longrightarrow> forceRefresh clock (Some p) w = (r, Some p', w') \<Longrightarrow> reachable p'"

section \<open>Scenario values\<close>

text \<open>
  The values of the repository's tests: a backend that accepts only the refreshed
  token, one that rejects every request, one that forbids every request; a refresh
  function and a token endpoint that return \<^verbatim>\<open>new-token\<close> for an hour; providers
  seeded with \<^verbatim>\<open>bad-token\<close> (with a deadline in the future, with an empty cache, as
  built from a fetcher and a refresh URL), and providers whose fetcher returned the
  empty string (without and with a refresh URL).
\<close>

definition test_clock :: clock where
  "test_clock k = 1000 * Second + int k"

definition test_request :: request where
  "test_request = \<lparr>url = ''/data'', Header = [], Body = NoBody, GetBody = None,
     ctx_tokenErrorKey = None, ctx_tokenRetryKey = None\<rparr>"

definition test_post :: request where
  "test_post = test_request\<lparr>Body := BodyReader ''payload''\<rparr>"

definition status_response :: "int \<Rightarrow> response" where
  "status_response c = \<lparr>StatusCode = c, RespBody = Some []\<rparr>"

definition test_backend :: backend where
  "test_backend tr req =
     (if map_of (Header req) ''Authorization'' = Some ''Bearer new-token''
      then Inr (status_response 200) else Inr (status_response 401))"

definition rejecting_backend :: backend where
  "rejecting_backend tr req = Inr (status_response 401)"

definition forbidding_backend :: backend where
  "forbidding_backend tr req = Inr (status_response 403)"

definition test_refresh :: tokenRefreshFunc where
  "test_refresh tr = Inr (''new-token'', 3600 * Second)"

definition test_provider :: tokenProvider where
  "test_provider = \<lparr>token = ''bad-token'', refreshAt = zero_Time,
     fetch = Some (\<lambda>u. ''bad-token''), refresh = Some test_refresh\<rparr>"

definition empty_provider :: tokenProvider where
  "empty_provider = \<lparr>token = [], refreshAt = zero_Time, fetch = Some (\<lambda>u. []), refresh = None\<rparr>"

definition test_world :: world where
  "test_world = \<lparr>ticks = 0, trace = []\<rparr>"

definition fresh_provider :: tokenProvider where
  "fresh_provider = test_provider\<lparr>refreshAt := 2000 * Second\<rparr>"

definition cold_provider :: tokenProvider where
  "cold_provider = test_provider\<lparr>token := []\<rparr>"

definition test_endpoint :: token_endpoint where
  "test_endpoint tokenURL tr = \<lparr>NewRequest_err = None,
     Do_result = Inr (200, Inr \<lparr>AccessToken = ''new-token'', ExpiresIn = 3600\<rparr>)\<rparr>"

definition built_provider :: tokenProvider where
  "built_provider = \<lparr>token = ''bad-token'', refreshAt = zero_Time,
     fetch = Some (\<lambda>u. ''bad-token''),
     refresh = Some (\<lambda>tr. fetchTokenFromURL (test_endpoint ''http://token'' tr))\<rparr>"

definition blank_fetcher :: TokenFetcherFunc where
  "blank_fetcher u = []"

definition unseeded_provider :: tokenProvider where
  "unseeded_provider = \<lparr>token = [], refreshAt = zero_Time,
     fetch = Some blank_fetcher,
     refresh = Some (\<lambda>tr. fetchTokenFromURL (test_endpoint ''http://token'' tr))\<rparr>"

definition blank_refresh :: tokenRefreshFunc where
  "blank_refresh tr = Inr (''  '', 0)"

section \<open>Auxiliary facts\<close>

lemma sdiv_pos: "0 \<le> (a::int) \<Longrightarrow> 0 < b \<Longrightarrow> a sdiv b = a div b"
  by (simp add: signed_divide_int_def sgn_if)

lemma dropWhile_fix: "xs = [] \<or> \<not> P (hd xs) \<Longrightarrow> dropWhile P xs = xs"
  by (cases xs) auto

lemma last_dropWhile_eq: "dropWhile P xs \<noteq> [] \<Longrightarrow> last (dropWhile P xs) = last xs"
  by (induction xs) (auto split: if_splits)

lemma TrimSpace_nil_iff: "TrimSpace s = [] \<longleftrightarrow> (\<forall>c\<in>set s. isSpace c)"
proof -
  let ?u = "dropWhile isSpace s"
  have "dropWhile isSpace (rev ?u) = [] \<longleftrightarrow> ?u = []"
  proof
    assume a: "dropWhile isSpace (rev ?u) = []"
    show "?u = []"
    proof (rule ccontr)
      assume n: "?u \<noteq> []"
      then have "\<not> isSpace (hd ?u)" by (rule hd_dropWhile)
      moreover have "hd ?u \<in> set (rev ?u)" using n by simp
      ultimately show False using a by auto
    qed
  qed (simp only: rev.simps dropWhile.simps)
  then show ?thesis by (simp add: TrimSpace_def)
qed

lemma TrimSpace_ends:
  "TrimSpace s = [] \<or> (\<not> isSpace (hd (TrimSpace s)) \<and> \<not> isSpace (last (TrimSpace s)))"
proof (cases "TrimSpace s = []")
  case True
  then show ?thesis by simp
next
  case False
  let ?u = "dropWhile isSpace s"
  let ?v = "dropWhile isSpace (rev ?u)"
  have v: "?v \<noteq> []" using False by (simp add: TrimSpace_def)
  have u: "?u \<noteq> []"
  proof
    assume "?u = []"
    then have "?v = []" by (simp only: rev.simps dropWhile.simps)
    with v show False by contradiction
  qed
  have "last (TrimSpace s) = hd ?v" using v by (simp add: TrimSpace_def last_rev)
  moreover have "\<not> isSpace (hd ?v)" using v by (rule hd_dropWhile)
  moreover have "hd (TrimSpace s) = last ?v" using v by (simp add: TrimSpace_def hd_rev)
  moreover have "last ?v = hd ?u" using v u by (simp add: last_dropWhile_eq last_rev)
  moreover have "\<not> isSpace (hd ?u)" using u by (rule hd_dropWhile)
  ultimately show ?thesis by simp
qed

lemma TrimSpace_idem: "TrimSpace (TrimSpace s) = TrimSpace s"
proof -
  let ?t = "TrimSpace s"
  have a: "dropWhile isSpace ?t = ?t"
    using TrimSpace_ends [of s] by (auto intro: dropWhile_fix)
  have "rev ?t = [] \<or> \<not> isSpace (hd (rev ?t))"
    using TrimSpace_ends [of s] by (auto simp: hd_rev)
  then have b: "dropWhile isSpace (rev ?t) = rev ?t" by (rule dropWhile_fix)
  have "TrimSpace ?t = rev (dropWhile isSpace (rev (dropWhile isSpace ?t)))"
    by (simp only: TrimSpace_def)
  also have "\<dots> = ?t" by (simp only: a b rev_rev_ident)
  finally show ?thesis .
qed

lemma expiryBuffer_spec_buffer: "0 < ttl \<Longrightarrow> expiryBuffer ttl = spec_buffer Second ttl"
  by (simp add: expiryBuffer_def spec_buffer_def Let_def defaultExpiryBuffer_def sdiv_pos)

section \<open>The expiry buffer\<close>

text \<open>
  C3. \<^verbatim>\<open>setWithExpiry\<close> is the specification's \<open>installWithTTL\<close> with the second as
  time unit: the token is stored; for \<open>ttl \<le> 0\<close> the deadline is the zero time (never
  expires) and the clock is not read; otherwise the clock is read once and the deadline
  is \<open>now + ttl - b\<close>, where \<open>b\<close> starts at 30 units, is lowered to \<open>ttl/10\<close> when that
  is positive and smaller, then to \<open>ttl/2\<close> when \<open>ttl < b\<close>, and raised to one unit
  when \<open>ttl\<close> is at least two units and \<open>b\<close> is below one.
\<close>

theorem setWithExpiry_follows_spec:
  "setWithExpiry clock tok ttl p w =
     (p\<lparr>refreshAt := snd (spec_installWithTTL Second (clock (ticks w)) tok ttl),
        token := fst (spec_installWithTTL Second (clock (ticks w)) tok ttl)\<rparr>,
      if ttl \<le> 0 then w else w\<lparr>ticks := Suc (ticks w)\<rparr>)"
  by (simp add: setWithExpiry_def spec_installWithTTL_def expiryBuffer_spec_buffer
      time_Now_def Add_def zero_Time_def Let_def)

text \<open>
  C8, as the specification states it, fails: a time-to-live of one second lies strictly
  between 0 and 2 units and its tenth is below 30 units, but the buffer is the tenth
  (100 ms), not the half.
\<close>

theorem expiryBuffer_half_counterexample:
  "0 < Second \<and> Second < 2 * Second \<and> Second sdiv 10 < 30 * Second
     \<and> expiryBuffer Second \<noteq> Second sdiv 2"
  by (simp add: expiryBuffer_def Let_def defaultExpiryBuffer_def Second_def sdiv_pos)

text \<open>
  C8, amended. For every time-to-live strictly between 0 and 2 units the buffer is the
  tenth of the time-to-live when that tenth is positive (at least 10 ns), and the half
  otherwise; being a function of the time-to-live, it is deterministic.
\<close>

theorem expiryBuffer_short_ttl:
  "0 < ttl \<Longrightarrow> ttl < 2 * Second \<Longrightarrow>
     expiryBuffer ttl = (if 0 < ttl sdiv 10 then ttl sdiv 10 else ttl sdiv 2)"
  by (auto simp: expiryBuffer_def Let_def defaultExpiryBuffer_def Second_def sdiv_pos)

theorem expiryBuffer_short_ttl_witness:
  "expiryBuffer 1000000000 = 100000000 \<and> expiryBuffer 5 = 2"
proof -
  have a: "(0::int) < 1000000000" and b: "(1000000000::int) < 2 * Second"
    by (simp_all add: Second_def)
  have c: "(0::int) < 5" and d: "(5::int) < 2 * Second"
    by (simp_all add: Second_def)
  show ?thesis
    using expiryBuffer_short_ttl [OF a b] expiryBuffer_short_ttl [OF c d]
    by (simp add: sdiv_pos)
qed

section \<open>Histories of the provider and the transports\<close>

lemma setWithExpiry_trace:
  "setWithExpiry clock tok ttl p w = (p', w') \<Longrightarrow> trace w' = trace w"
  by (auto simp: setWithExpiry_def time_Now_def Let_def split: if_splits)

lemma forceRefresh_trace:
  assumes "forceRefresh clock po w = (r, po', w')"
  shows "(trace w' = trace w \<and> (\<exists>e. r = Inl e)) \<or> trace w' = trace w @ [EvRefresh]"
  using assms
  by (auto simp: forceRefresh_def call_refresh_def Let_def dest!: setWithExpiry_trace
      split: option.splits sum.splits prod.splits if_splits)

lemma needsRefresh_trace: "needsRefresh clock p w = (b, w1) \<Longrightarrow> trace w1 = trace w"
  by (auto simp: needsRefresh_def time_Now_def Let_def split: if_splits)

lemma ensureToken_trace:
  assumes "ensureToken clock po w = (r, po', w')"
  shows "trace w' = trace w \<or> trace w' = trace w @ [EvRefresh]"
proof (cases po)
  case None
  with assms show ?thesis by (simp add: ensureToken_def)
next
  case (Some p)
  show ?thesis
  proof (cases "refresh p")
    case None
    with assms Some show ?thesis by (auto simp: ensureToken_def split: if_splits)
  next
    case (Some rf)
    obtain b w1 where nr: "needsRefresh clock p w = (b, w1)" by (cases "needsRefresh clock p w")
    then have t1: "trace w1 = trace w" by (rule needsRefresh_trace)
    show ?thesis
      using assms \<open>po = Some p\<close> Some nr t1
      by (auto simp: ensureToken_def call_refresh_def Let_def dest!: setWithExpiry_trace
          split: sum.splits prod.splits if_splits bool.splits)
  qed
qed

lemma retry_non401:
  "base req st = (Inr resp, st1) \<Longrightarrow> StatusCode resp \<noteq> StatusUnauthorized \<Longrightarrow>
     tokenRetryTransport_RoundTrip clock base req st = (Inr resp, st1)"
  by (cases st1) (simp add: tokenRetryTransport_RoundTrip_def)

lemma retry_marked:
  "ctx_tokenRetryKey req \<noteq> None \<Longrightarrow> tokenRetryTransport_RoundTrip clock base req st = base req st"
  by (auto simp: tokenRetryTransport_RoundTrip_def split: prod.splits sum.splits)

lemma retry_unsafe_body:
  "base req st = (Inr resp, st1) \<Longrightarrow> Body req \<noteq> BodyNil \<Longrightarrow> Body req \<noteq> NoBody \<Longrightarrow> GetBody req = None \<Longrightarrow>
     tokenRetryTransport_RoundTrip clock base req st = (Inr resp, st1)"
  by (cases st1) (auto simp add: tokenRetryTransport_RoundTrip_def split: option.splits)

lemma inner_dispatch:
  "ctx_tokenErrorKey req = None \<Longrightarrow>
     tokenErrorTransport_RoundTrip (baseTransport net) req (po, w) =
       (net (trace w) req, (po, w\<lparr>trace := trace w @ [EvDispatch req]\<rparr>))"
  by (simp add: tokenErrorTransport_RoundTrip_def baseTransport_def)

lemma inner_error:
  "ctx_tokenErrorKey req = Some err \<Longrightarrow> tokenErrorTransport_RoundTrip base req st = (Inl err, st)"
  by (simp add: tokenErrorTransport_RoundTrip_def)

lemma replayRequest_ctx:
  "replayRequest req tok = Inr newReq \<Longrightarrow>
     ctx_tokenRetryKey newReq = Some True \<and> ctx_tokenErrorKey newReq = ctx_tokenErrorKey req"
  by (auto simp: replayRequest_def Header_Set_def Let_def split: option.splits sum.splits)


lemma dispatches_append [simp]: "dispatches (a @ b) = dispatches a + dispatches b"
  by (simp add: dispatches_def)
lemma refreshes_append [simp]: "refreshes (a @ b) = refreshes a + refreshes b"
  by (simp add: refreshes_def)
lemma dispatches_single [simp]:
  "dispatches [EvDispatch r] = 1" "dispatches [EvRefresh] = 0" "dispatches [EvCloseBody x] = 0" "dispatches [] = 0"
  by (simp_all add: dispatches_def)
lemma refreshes_single [simp]:
  "refreshes [EvDispatch r] = 0" "refreshes [EvRefresh] = 1" "refreshes [EvCloseBody x] = 0" "refreshes [] = 0"
  by (simp_all add: refreshes_def)

lemma closeBody_trace:
  "trace (closeBody resp w) = trace w \<or> trace (closeBody resp w) = trace w @ [EvCloseBody resp]"
  by (simp add: closeBody_def)

lemma forceRefresh_ok_trace:
  "forceRefresh clock po w = (Inr tok, po', w') \<Longrightarrow> trace w' = trace w @ [EvRefresh]"
  by (drule forceRefresh_trace) auto


lemma proxyTransport_shape:
  assumes run: "proxyTransport clock net req (po, w) = (r, (po', w'))"
  shows "(trace w' = trace w \<and> (\<exists>e. r = Inl e))
       \<or> (trace w' = trace w @ [EvDispatch req] \<and> r = net (trace w) req \<and> po' = po)
       \<or> (trace w' = trace w @ [EvDispatch req] \<and> (\<exists>e. r = Inl e))
       \<or> (trace w' = trace w @ [EvDispatch req, EvRefresh] \<and> (\<exists>e. r = Inl e))
       \<or> (\<exists>cl. (cl = [] \<or> (\<exists>resp. cl = [EvCloseBody resp])) \<and>
             trace w' = trace w @ [EvDispatch req, EvRefresh] @ cl \<and> (\<exists>e. r = Inl e))
       \<or> (\<exists>cl tok newReq. (cl = [] \<or> (\<exists>resp. cl = [EvCloseBody resp])) \<and>
             replayRequest req tok = Inr newReq \<and> ctx_tokenRetryKey req = None \<and>
             trace w' = trace w @ [EvDispatch req, EvRefresh] @ cl @ [EvDispatch newReq] \<and>
             r = net (trace w @ [EvDispatch req, EvRefresh] @ cl) newReq)"
    (is "?A \<or> ?B \<or> ?C \<or> ?D \<or> ?E \<or> ?F")
proof (cases "ctx_tokenErrorKey req")
  case (Some err)
  with run have "r = Inl err \<and> w' = w"
    by (auto simp: proxyTransport_def tokenRetryTransport_RoundTrip_def inner_error)
  then have ?A by simp
  then show ?thesis by (rule disjI1)
next
  case None
  note first = inner_dispatch [OF None, of net po w]
  let ?w1 = "w\<lparr>trace := trace w @ [EvDispatch req]\<rparr>"
  let ?inner = "tokenErrorTransport_RoundTrip (baseTransport net)"
  from run have run': "tokenRetryTransport_RoundTrip clock ?inner req (po, w) = (r, (po', w'))"
    by (simp add: proxyTransport_def)
  show ?thesis
  proof (cases "net (trace w) req")
    case (Inl err)
    with run' first have "r = Inl err \<and> w' = ?w1"
      by (auto simp: tokenRetryTransport_RoundTrip_def)
    then have ?C by simp
    then show ?thesis by blast
  next
    case (Inr resp)
    show ?thesis
    proof (cases "StatusCode resp \<noteq> StatusUnauthorized \<or> ctx_tokenRetryKey req \<noteq> None \<or> po = None
        \<or> (\<exists>p. po = Some p \<and> refresh p = None)
        \<or> (Body req \<noteq> BodyNil \<and> Body req \<noteq> NoBody \<and> GetBody req = None)")
      case True
      have "tokenRetryTransport_RoundTrip clock ?inner req (po, w) = (Inr resp, (po, ?w1))"
        using True first Inr
        by (auto simp: tokenRetryTransport_RoundTrip_def split: option.splits)
      with run' have "r = Inr resp" "po' = po" "w' = ?w1"
        by simp_all
      with Inr have ?B by simp
      then show ?thesis by blast
    next
      case False
      then obtain p where p: "po = Some p" "refresh p \<noteq> None"
        and el: "StatusCode resp = StatusUnauthorized" "ctx_tokenRetryKey req = None"
          "\<not> (Body req \<noteq> BodyNil \<and> Body req \<noteq> NoBody \<and> GetBody req = None)"
        by auto
      obtain fr po2 w2 where fr: "forceRefresh clock po ?w1 = (fr, po2, w2)"
        by (cases "forceRefresh clock po ?w1") auto
      have step: "tokenRetryTransport_RoundTrip clock ?inner req (po, w) =
          (case fr of
             Inl err \<Rightarrow> (Inl err, (po2, w2))
           | Inr tok \<Rightarrow>
               (case replayRequest req tok of
                  Inl bodyErr \<Rightarrow> (Inl bodyErr, (po2, closeBody resp w2))
                | Inr newReq \<Rightarrow> ?inner newReq (po2, closeBody resp w2)))"
        using first Inr p el fr
        by (cases fr) (auto simp: tokenRetryTransport_RoundTrip_def Let_def)
      show ?thesis
      proof (cases fr)
        case (Inl err)
        with step run' have "r = Inl err" "w' = w2" by simp_all
        moreover from forceRefresh_trace [OF fr]
        have "trace w2 = trace w @ [EvDispatch req] \<or> trace w2 = trace w @ [EvDispatch req, EvRefresh]"
          by auto
        ultimately have "?C \<or> ?D" by auto
        then show ?thesis by blast
      next
        case fok: (Inr tok)
        have t2: "trace w2 = trace w @ [EvDispatch req, EvRefresh]"
          using forceRefresh_ok_trace [of clock po ?w1 tok po2 w2] fr fok by simp
        let ?w3 = "closeBody resp w2"
        obtain cl where cl: "cl = [] \<or> (\<exists>resp. cl = [EvCloseBody resp])"
          "trace ?w3 = trace w @ [EvDispatch req, EvRefresh] @ cl"
          using closeBody_trace [of resp w2] t2 by auto
        show ?thesis
        proof (cases "replayRequest req tok")
          case (Inl bodyErr)
          with step run' fok have "r = Inl bodyErr" "w' = ?w3" by simp_all
          with cl have ?E by blast
          then show ?thesis by blast
        next
          case rq: (Inr newReq)
          have e: "ctx_tokenErrorKey newReq = None"
            using replayRequest_ctx [OF rq] None by simp
          from step run' fok rq inner_dispatch [OF e, of net po2 ?w3]
          have "r = net (trace ?w3) newReq" "w' = ?w3\<lparr>trace := trace ?w3 @ [EvDispatch newReq]\<rparr>"
            by simp_all
          with cl have "trace w' = trace w @ [EvDispatch req, EvRefresh] @ cl @ [EvDispatch newReq]"
            "r = net (trace w @ [EvDispatch req, EvRefresh] @ cl) newReq"
            by simp_all
          with cl(1) rq el(2) have ?F by blast
          then show ?thesis by blast
        qed
      qed
    qed
  qed
qed

lemma ensureToken_dispatches:
  "ensureToken clock po w = (r, po', w') \<Longrightarrow> dispatches (trace w') = dispatches (trace w)"
  by (drule ensureToken_trace) (auto simp: dispatches_def)

lemma forceRefresh_calls:
  "refresh p = Some rf \<Longrightarrow> forceRefresh clock (Some p) w = (r, po', w') \<Longrightarrow>
     trace w' = trace w @ [EvRefresh]"
  by (auto simp: forceRefresh_def call_refresh_def Let_def dest!: setWithExpiry_trace
      split: sum.splits prod.splits if_splits)

lemma refreshes_closeBody: "refreshes (trace (closeBody resp w)) = refreshes (trace w)"
  by (simp add: closeBody_def refreshes_def)

lemma unauthorized_refreshes:
  assumes e: "ctx_tokenErrorKey req = None" and n: "net (trace w) req = Inr resp"
    and s: "StatusCode resp = StatusUnauthorized" and m: "ctx_tokenRetryKey req = None"
    and p: "refresh p = Some rf"
    and b: "Body req = BodyNil \<or> Body req = NoBody \<or> GetBody req \<noteq> None"
  shows "refreshes (trace (snd (snd (proxyTransport clock net req (Some p, w))))) =
     refreshes (trace w) + 1"
proof -
  let ?w1 = "w\<lparr>trace := trace w @ [EvDispatch req]\<rparr>"
  note first = inner_dispatch [OF e, of net "Some p" w]
  obtain fr po2 w2 where fr: "forceRefresh clock (Some p) ?w1 = (fr, po2, w2)"
    by (cases "forceRefresh clock (Some p) ?w1") auto
  have t2: "trace w2 = trace w @ [EvDispatch req, EvRefresh]"
    using forceRefresh_calls [OF p fr] by simp
  then have r2: "refreshes (trace w2) = refreshes (trace w) + 1"
    by (simp add: refreshes_def)
  show ?thesis
  proof (cases fr)
    case (Inl err)
    with first n s m p b fr r2 show ?thesis
      by (auto simp: proxyTransport_def tokenRetryTransport_RoundTrip_def)
  next
    case fok: (Inr tok)
    let ?w3 = "closeBody resp w2"
    have r3: "refreshes (trace ?w3) = refreshes (trace w) + 1"
      using r2 by (simp add: refreshes_closeBody)
    show ?thesis
    proof (cases "replayRequest req tok")
      case (Inl bodyErr)
      with first n s m p b fr fok r3 show ?thesis
        by (auto simp: proxyTransport_def tokenRetryTransport_RoundTrip_def Let_def)
    next
      case rq: (Inr newReq)
      have e': "ctx_tokenErrorKey newReq = None"
        using replayRequest_ctx [OF rq] e by simp
      show ?thesis
        using first n s m p b fr fok rq r3 inner_dispatch [OF e', of net po2 ?w3]
        by (auto simp: proxyTransport_def tokenRetryTransport_RoundTrip_def Let_def refreshes_def)
    qed
  qed
qed

lemmas test_defs = test_clock_def test_request_def test_post_def status_response_def
  test_backend_def rejecting_backend_def forbidding_backend_def test_refresh_def test_provider_def
  empty_provider_def test_world_def

lemmas run_defs = proxyTransport_def tokenRetryTransport_RoundTrip_def
  tokenErrorTransport_RoundTrip_def baseTransport_def forceRefresh_def call_refresh_def
  setWithExpiry_def expiryBuffer_def defaultExpiryBuffer_def time_Now_def closeBody_def
  replayRequest_def Header_Set_def TrimSpace_def isSpace_def Let_def Second_def
  StatusUnauthorized_def zero_Time_def Add_def sdiv_pos

lemma run_rejecting:
  "proxyTransport test_clock rejecting_backend test_request (Some test_provider, test_world) =
     (Inr (status_response 401),
      (Some (test_provider\<lparr>refreshAt := 1000 * Second + 3600 * Second - 30 * Second, token := ''new-token''\<rparr>),
       \<lparr>ticks = 1, trace = [EvDispatch test_request, EvRefresh, EvCloseBody (status_response 401),
          EvDispatch (test_request\<lparr>Header := [(''Authorization'', ''Bearer new-token'')],
             ctx_tokenRetryKey := Some True\<rparr>)]\<rparr>))"
  by (simp add: run_defs test_defs)

section \<open>The retry transport\<close>

text \<open>
  C1. A request that carries the retry marker is passed to the inner transport once and
  its outcome is returned as it is, whatever the inner transport is. Through the
  transport that \<^verbatim>\<open>newReverseProxy\<close> installs, one call dispatches at most two requests
  to the backend and calls the refresh function at most once; when two requests were
  dispatched, the second one carries the retry marker, it is the last event of the call,
  and the backend's answer to it (a rejection included) is the result of the call.
\<close>

theorem at_most_one_replay:
  "(ctx_tokenRetryKey req \<noteq> None \<longrightarrow> tokenRetryTransport_RoundTrip clock base req st = base req st)
   \<and> (proxyTransport clock net req (po, w) = (r, (po', w')) \<longrightarrow>
        dispatches (trace w') \<le> dispatches (trace w) + 2
      \<and> refreshes (trace w') \<le> refreshes (trace w) + 1
      \<and> (dispatches (trace w') = dispatches (trace w) + 2 \<longrightarrow>
           (\<exists>tok newReq tr. replayRequest req tok = Inr newReq
              \<and> ctx_tokenRetryKey newReq = Some True \<and> ctx_tokenRetryKey req = None
              \<and> trace w' = tr @ [EvDispatch newReq] \<and> r = net tr newReq
              \<and> dispatches tr = dispatches (trace w) + 1
              \<and> refreshes tr = refreshes (trace w) + 1)))"
proof (intro conjI impI)
  assume "ctx_tokenRetryKey req \<noteq> None"
  then show "tokenRetryTransport_RoundTrip clock base req st = base req st" by (rule retry_marked)
next
  assume run: "proxyTransport clock net req (po, w) = (r, (po', w'))"
  from proxyTransport_shape [OF run]
  show "dispatches (trace w') \<le> dispatches (trace w) + 2"
    by (auto simp: dispatches_def)
next
  assume run: "proxyTransport clock net req (po, w) = (r, (po', w'))"
  from proxyTransport_shape [OF run]
  show "refreshes (trace w') \<le> refreshes (trace w) + 1"
    by (auto simp: refreshes_def)
next
  assume run: "proxyTransport clock net req (po, w) = (r, (po', w'))"
    and two: "dispatches (trace w') = dispatches (trace w) + 2"
  from proxyTransport_shape [OF run] two
  obtain cl tok newReq where cl: "cl = [] \<or> (\<exists>resp. cl = [EvCloseBody resp])"
    and rq: "replayRequest req tok = Inr newReq" and mk: "ctx_tokenRetryKey req = None"
    and tr: "trace w' = trace w @ [EvDispatch req, EvRefresh] @ cl @ [EvDispatch newReq]"
    and r: "r = net (trace w @ [EvDispatch req, EvRefresh] @ cl) newReq"
    by (auto simp: dispatches_def)
  let ?tr = "trace w @ [EvDispatch req, EvRefresh] @ cl"
  have "dispatches ?tr = dispatches (trace w) + 1" "refreshes ?tr = refreshes (trace w) + 1"
    using cl by (auto simp: dispatches_def refreshes_def)
  moreover have "trace w' = ?tr @ [EvDispatch newReq]" using tr by simp
  ultimately show "\<exists>tok newReq tr. replayRequest req tok = Inr newReq
              \<and> ctx_tokenRetryKey newReq = Some True \<and> ctx_tokenRetryKey req = None
              \<and> trace w' = tr @ [EvDispatch newReq] \<and> r = net tr newReq
              \<and> dispatches tr = dispatches (trace w) + 1
              \<and> refreshes tr = refreshes (trace w) + 1"
    using rq mk r replayRequest_ctx [OF rq] by blast
qed


theorem at_most_one_replay_witness:
  "fst (proxyTransport test_clock rejecting_backend test_request (Some test_provider, test_world))
     = Inr (status_response 401)
   \<and> (\<exists>tok newReq tr. replayRequest test_request tok = Inr newReq
        \<and> ctx_tokenRetryKey newReq = Some True
        \<and> trace (snd (snd (proxyTransport test_clock rejecting_backend test_request
              (Some test_provider, test_world)))) = tr @ [EvDispatch newReq]
        \<and> rejecting_backend tr newReq = Inr (status_response 401)
        \<and> dispatches tr = 1 \<and> refreshes tr = 1)"
proof -
  let ?w' = "\<lparr>ticks = 1, trace = [EvDispatch test_request, EvRefresh,
      EvCloseBody (status_response 401),
      EvDispatch (test_request\<lparr>Header := [(''Authorization'', ''Bearer new-token'')],
        ctx_tokenRetryKey := Some True\<rparr>)]\<rparr>"
  note run = run_rejecting
  have two: "dispatches (trace ?w') = dispatches (trace test_world) + 2"
    by (simp add: dispatches_def test_world_def)
  have z: "dispatches (trace test_world) = 0" "refreshes (trace test_world) = 0"
    by (simp_all add: dispatches_def refreshes_def test_world_def)
  from at_most_one_replay [THEN conjunct2, THEN mp, OF run, THEN conjunct2, THEN conjunct2,
      THEN mp, OF two]
  show ?thesis unfolding run z by (auto simp: rejecting_backend_def)
qed

text \<open>
  C10. A response whose status is not 401 (403 for instance) is returned unchanged: the
  call is exactly one call of the inner transport; through the installed transport the
  provider is unchanged and the history grows by the one dispatch, so that there is no
  refresh and no replay. A 401, on the other hand, is an authorization rejection: when
  the request is not a retry, a refresh function is configured and the body can be sent
  again, the refresh function is called.
\<close>

theorem retry_only_on_unauthorized:
  "(base req st = (Inr resp, st1) \<and> StatusCode resp \<noteq> StatusUnauthorized \<longrightarrow>
      tokenRetryTransport_RoundTrip clock base req st = (Inr resp, st1))
   \<and> (ctx_tokenErrorKey req = None \<and> net (trace w) req = Inr resp
        \<and> StatusCode resp \<noteq> StatusUnauthorized \<longrightarrow>
      proxyTransport clock net req (po, w) =
        (Inr resp, (po, w\<lparr>trace := trace w @ [EvDispatch req]\<rparr>)))
   \<and> (ctx_tokenErrorKey req = None \<and> net (trace w) req = Inr resp
        \<and> StatusCode resp = StatusUnauthorized \<and> ctx_tokenRetryKey req = None
        \<and> refresh p = Some rf
        \<and> (Body req = BodyNil \<or> Body req = NoBody \<or> GetBody req \<noteq> None) \<longrightarrow>
      refreshes (trace (snd (snd (proxyTransport clock net req (Some p, w))))) =
        refreshes (trace w) + 1)"
proof (intro conjI impI)
  assume "base req st = (Inr resp, st1) \<and> StatusCode resp \<noteq> StatusUnauthorized"
  then show "tokenRetryTransport_RoundTrip clock base req st = (Inr resp, st1)"
    by (simp add: retry_non401)
next
  assume "ctx_tokenErrorKey req = None \<and> net (trace w) req = Inr resp
      \<and> StatusCode resp \<noteq> StatusUnauthorized"
  then show "proxyTransport clock net req (po, w) =
      (Inr resp, (po, w\<lparr>trace := trace w @ [EvDispatch req]\<rparr>))"
    by (simp add: retry_non401 proxyTransport_def inner_dispatch)
next
  assume "ctx_tokenErrorKey req = None \<and> net (trace w) req = Inr resp
      \<and> StatusCode resp = StatusUnauthorized \<and> ctx_tokenRetryKey req = None
      \<and> refresh p = Some rf
      \<and> (Body req = BodyNil \<or> Body req = NoBody \<or> GetBody req \<noteq> None)"
  then show "refreshes (trace (snd (snd (proxyTransport clock net req (Some p, w))))) =
      refreshes (trace w) + 1"
    by (intro unauthorized_refreshes [where resp = resp and rf = rf]) simp_all
qed

theorem retry_only_on_unauthorized_witness:
  "proxyTransport test_clock forbidding_backend test_request (Some test_provider, test_world) =
     (Inr (status_response 403), (Some test_provider, \<lparr>ticks = 0, trace = [EvDispatch test_request]\<rparr>))
   \<and> refreshes (trace (snd (snd (proxyTransport test_clock rejecting_backend test_request
         (Some test_provider, test_world))))) = 1"
proof -
  have a: "ctx_tokenErrorKey test_request = None \<and>
      forbidding_backend (trace test_world) test_request = Inr (status_response 403) \<and>
      StatusCode (status_response 403) \<noteq> StatusUnauthorized"
    by (simp add: test_defs StatusUnauthorized_def)
  have b: "ctx_tokenErrorKey test_request = None \<and>
      rejecting_backend (trace test_world) test_request = Inr (status_response 401) \<and>
      StatusCode (status_response 401) = StatusUnauthorized \<and>
      ctx_tokenRetryKey test_request = None \<and> refresh test_provider = Some test_refresh \<and>
      (Body test_request = BodyNil \<or> Body test_request = NoBody \<or> GetBody test_request \<noteq> None)"
    by (simp add: test_defs StatusUnauthorized_def)
  from retry_only_on_unauthorized [where net = forbidding_backend and w = test_world
      and req = test_request and resp = "status_response 403" and po = "Some test_provider"
      and clock = test_clock, THEN conjunct2, THEN conjunct1, THEN mp, OF a]
    retry_only_on_unauthorized [where net = rejecting_backend and w = test_world
      and req = test_request and resp = "status_response 401" and p = test_provider
      and rf = test_refresh and clock = test_clock,
      THEN conjunct2, THEN conjunct2, THEN mp, OF b]
  show ?thesis by (simp add: test_world_def refreshes_def)
qed

text \<open>
  C4. When the request has a body that is neither \<^verbatim>\<open>nil\<close> nor \<^verbatim>\<open>http.NoBody\<close> and
  no \<^verbatim>\<open>GetBody\<close>, the response of the inner transport is returned unchanged, also
  when it is a 401: the provider is unchanged and the history grows by the one dispatch.
\<close>

theorem unsafe_body_never_replayed:
  "(base req st = (Inr resp, st1) \<and> Body req \<noteq> BodyNil \<and> Body req \<noteq> NoBody \<and> GetBody req = None
      \<longrightarrow> tokenRetryTransport_RoundTrip clock base req st = (Inr resp, st1))
   \<and> (ctx_tokenErrorKey req = None \<and> net (trace w) req = Inr resp
        \<and> StatusCode resp = StatusUnauthorized
        \<and> Body req \<noteq> BodyNil \<and> Body req \<noteq> NoBody \<and> GetBody req = None \<longrightarrow>
      proxyTransport clock net req (po, w) =
        (Inr resp, (po, w\<lparr>trace := trace w @ [EvDispatch req]\<rparr>)))"
  by (simp add: retry_unsafe_body proxyTransport_def inner_dispatch)

theorem unsafe_body_never_replayed_witness:
  "proxyTransport test_clock rejecting_backend test_post (Some test_provider, test_world) =
     (Inr (status_response 401), (Some test_provider, \<lparr>ticks = 0, trace = [EvDispatch test_post]\<rparr>))"
proof -
  have a: "ctx_tokenErrorKey test_post = None \<and>
      rejecting_backend (trace test_world) test_post = Inr (status_response 401) \<and>
      StatusCode (status_response 401) = StatusUnauthorized \<and>
      Body test_post \<noteq> BodyNil \<and> Body test_post \<noteq> NoBody \<and> GetBody test_post = None"
    by (simp add: test_defs test_post_def StatusUnauthorized_def)
  from unsafe_body_never_replayed [where net = rejecting_backend and w = test_world
      and req = test_post and resp = "status_response 401" and po = "Some test_provider"
      and clock = test_clock, THEN conjunct2, THEN mp, OF a]
  show ?thesis by (simp add: test_world_def)
qed

section \<open>The error-propagation transport\<close>

text \<open>
  C2. A request whose context carries an augmentation error fails with exactly that
  error, and neither the inner transport nor anything else is invoked: the state is
  unchanged. When \<^verbatim>\<open>ensureToken\<close> fails in the director, the director records the
  error in the context, the transport fails with it, no request is dispatched to the
  backend, and the caller receives the response of the error handler.
\<close>

theorem augmentation_error_never_dispatched:
  "(ctx_tokenErrorKey req = Some err \<longrightarrow>
      tokenErrorTransport_RoundTrip base req st = (Inl err, st)
      \<and> proxyTransport clock net req st = (Inl err, st))
   \<and> (ensureToken clock po w = (Inl err, po1, w1) \<longrightarrow>
        ctx_tokenErrorKey (fst (Director clock baseDirector req (po, w))) = Some err
      \<and> forward clock baseDirector net req (po, w) = (Inl err, (po1, w1))
      \<and> dispatches (trace w1) = dispatches (trace w)
      \<and> ServeHTTP clock baseDirector net req (po, w) = (ErrorHandler err, (po1, w1)))"
  by (auto simp: inner_error proxyTransport_def tokenRetryTransport_RoundTrip_def
      forward_def ServeHTTP_def Director_def Let_def ensureToken_dispatches)

theorem augmentation_error_never_dispatched_witness:
  "ServeHTTP test_clock id test_backend test_request (Some empty_provider, test_world) =
     (\<lparr>StatusCode = 502, RespBody = Some ''proxy error''\<rparr>, (Some empty_provider, test_world))
   \<and> tokenErrorTransport_RoundTrip (baseTransport test_backend)
        (test_request\<lparr>ctx_tokenErrorKey := Some (errors_New ''token is empty'')\<rparr>)
        (Some empty_provider, test_world) =
      (Inl (errors_New ''token is empty''), (Some empty_provider, test_world))"
proof -
  have a: "ensureToken test_clock (Some empty_provider) test_world =
      (Inl (errors_New ''token is empty''), Some empty_provider, test_world)"
    by (simp add: ensureToken_def empty_provider_def TrimSpace_def)
  have b: "ctx_tokenErrorKey (test_request\<lparr>ctx_tokenErrorKey := Some (errors_New ''token is empty'')\<rparr>)
      = Some (errors_New ''token is empty'')"
    by simp
  from augmentation_error_never_dispatched [THEN conjunct2, THEN mp, OF a]
    augmentation_error_never_dispatched [THEN conjunct1, THEN mp, OF b]
  show ?thesis by (simp add: ErrorHandler_def StatusBadGateway_def)
qed



section \<open>The credential provider: cache and installed tokens\<close>

lemmas provider_defs = ensureToken_def needsRefresh_def call_refresh_def forceRefresh_def
  setWithExpiry_def expiryBuffer_def defaultExpiryBuffer_def time_Now_def
  TrimSpace_def isSpace_def Let_def Second_def zero_Time_def Add_def IsZero_def After_def sdiv_pos

lemma setWithExpiry_token:
  "setWithExpiry clock tok ttl p w = (p', w') \<Longrightarrow>
     token p' = tok \<and> refresh p' = refresh p \<and> fetch p' = fetch p"
  by (auto simp: setWithExpiry_def time_Now_def Let_def split: if_splits)

lemma ensure_hit:
  assumes "TrimSpace (token p) \<noteq> []"
    and "IsZero (refreshAt p) \<or> \<not> After (clock (ticks w)) (refreshAt p)"
  shows "ensureToken clock (Some p) w =
     (Inr (token p), Some p,
      if refresh p = None \<or> IsZero (refreshAt p) then w else w\<lparr>ticks := Suc (ticks w)\<rparr>)"
  using assms
  by (auto simp: ensureToken_def needsRefresh_def time_Now_def Let_def split: option.splits)

lemma ensure_repeat_hit:
  assumes "TrimSpace (token p) \<noteq> []"
    and "IsZero (refreshAt p) \<or> (\<forall>k. ticks w \<le> k \<and> k < ticks w + n \<longrightarrow> \<not> After (clock k) (refreshAt p))"
  shows "\<exists>w'. ensureToken_repeat clock n (Some p) w = (replicate n (Inr (token p)), Some p, w')
     \<and> trace w' = trace w"
  using assms
proof (induction n arbitrary: w)
  case 0
  then show ?case by simp
next
  case (Suc n)
  let ?w1 = "if refresh p = None \<or> IsZero (refreshAt p) then w else w\<lparr>ticks := Suc (ticks w)\<rparr>"
  have h: "IsZero (refreshAt p) \<or> \<not> After (clock (ticks w)) (refreshAt p)"
    using Suc.prems(2) by auto
  have e: "ensureToken clock (Some p) w = (Inr (token p), Some p, ?w1)"
    using Suc.prems(1) h by (rule ensure_hit [where clock = clock and w = w])
  have "IsZero (refreshAt p) \<or> (\<forall>k. ticks ?w1 \<le> k \<and> k < ticks ?w1 + n \<longrightarrow> \<not> After (clock k) (refreshAt p))"
    using Suc.prems(2) by auto
  from Suc.IH [OF Suc.prems(1) this]
  obtain w' where r: "ensureToken_repeat clock n (Some p) ?w1 = (replicate n (Inr (token p)), Some p, w')"
    and t: "trace w' = trace ?w1" by blast
  have "trace ?w1 = trace w" by simp
  with e r t show ?case by simp
qed

lemma ensure_ok_nonblank:
  assumes "ensureToken clock po w = (Inr tok, po', w')"
  shows "\<exists>p'. po' = Some p' \<and> token p' = tok \<and> TrimSpace tok \<noteq> []"
  using assms
  by (auto simp: ensureToken_def needsRefresh_def call_refresh_def Let_def TrimSpace_idem
      dest!: setWithExpiry_token
      split: option.splits sum.splits prod.splits if_splits bool.splits)


lemma applyOption_token:
  "token (cfg_provider (applyOption endpoint opt cfg)) = token (cfg_provider cfg)"
  by (cases opt) (auto split: option.splits)

lemma foldl_applyOption_token:
  "token (cfg_provider (foldl (\<lambda>c opt. applyOption endpoint opt c) cfg opts)) =
     token (cfg_provider cfg)"
  by (induction opts arbitrary: cfg) (simp_all add: applyOption_token)

lemma TrimSpace_Nil [simp]: "TrimSpace [] = []"
  by (simp add: TrimSpace_def)

lemma newReverseProxy_token:
  assumes "newReverseProxy endpoint url_Parse backendURL opts = Inr (target, p)"
  shows "token p = [] \<or> (\<exists>f. fetch p = Some f \<and> token p = TrimSpace (f ()) \<and> token p \<noteq> [])"
  using assms foldl_applyOption_token [of endpoint "\<lparr>cfg_provider = new_tokenProvider\<rparr>" opts]
  by (auto simp: newReverseProxy_def Let_def set_token_def new_tokenProvider_def
      split: if_splits sum.splits option.splits)

lemma newReverseProxy_blank_fetch:
  assumes "newReverseProxy endpoint url_Parse backendURL opts = Inr (target, p)"
    and "fetch p = Some f" and "TrimSpace (f ()) = []"
  shows "token p = []"
  using assms foldl_applyOption_token [of endpoint "\<lparr>cfg_provider = new_tokenProvider\<rparr>" opts]
  by (auto simp: newReverseProxy_def Let_def set_token_def new_tokenProvider_def
      split: if_splits sum.splits option.splits)

lemma newReverseProxy_trimmed:
  "newReverseProxy endpoint url_Parse backendURL opts = Inr (target, p) \<Longrightarrow>
     TrimSpace (token p) = token p"
  by (drule newReverseProxy_token) (auto simp: TrimSpace_idem)

lemma ensureToken_trimmed:
  assumes "ensureToken clock (Some p) w = (r, Some p', w')" and "TrimSpace (token p) = token p"
  shows "TrimSpace (token p') = token p'"
  using assms
  by (auto simp: ensureToken_def call_refresh_def Let_def TrimSpace_idem
      dest!: setWithExpiry_token
      split: option.splits sum.splits prod.splits if_splits bool.splits)

lemma forceRefresh_trimmed:
  assumes "forceRefresh clock (Some p) w = (r, Some p', w')" and "TrimSpace (token p) = token p"
  shows "TrimSpace (token p') = token p'"
  using assms
  by (auto simp: forceRefresh_def call_refresh_def Let_def TrimSpace_idem
      dest!: setWithExpiry_token
      split: option.splits sum.splits prod.splits if_splits)

lemma reachable_trimmed: "reachable p \<Longrightarrow> TrimSpace (token p) = token p"
  by (induction rule: reachable.induct)
    (auto intro: newReverseProxy_trimmed ensureToken_trimmed forceRefresh_trimmed)

lemma forceRefresh_ok_token:
  assumes "forceRefresh clock po w = (Inr tok, po', w')"
  shows "\<exists>p'. po' = Some p' \<and> token p' = tok \<and> tok \<noteq> [] \<and> TrimSpace tok = tok"
  using assms
  by (auto simp: forceRefresh_def call_refresh_def Let_def TrimSpace_idem
      dest!: setWithExpiry_token
      split: option.splits sum.splits prod.splits if_splits)

lemma ensure_ok_token:
  assumes "ensureToken clock (Some p) w = (Inr tok, po', w')" and "TrimSpace (token p) = token p"
  shows "\<exists>p'. po' = Some p' \<and> token p' = tok \<and> tok \<noteq> [] \<and> TrimSpace tok = tok"
proof -
  from ensure_ok_nonblank [OF assms(1)] obtain p' where
    p': "po' = Some p'" "token p' = tok" "TrimSpace tok \<noteq> []" by auto
  from ensureToken_trimmed [of clock p w "Inr tok" p' w'] assms p'
  have "TrimSpace tok = tok" by simp
  with p' show ?thesis by auto
qed

lemma blank_refresh_force:
  assumes "refresh p = Some rf" and "rf (trace w) = Inr (raw, ttl)" and "TrimSpace raw = []"
  shows "forceRefresh clock (Some p) w =
     (Inl (errors_New ''token is empty''), Some p, w\<lparr>trace := trace w @ [EvRefresh]\<rparr>)"
  using assms by (simp add: forceRefresh_def call_refresh_def)

lemma blank_refresh_ensure:
  assumes "refresh p = Some rf" and "rf (trace w) = Inr (raw, ttl)" and "TrimSpace raw = []"
    and "needsRefresh clock p w = (True, w1)"
  shows "ensureToken clock (Some p) w =
     (Inl (errors_New ''token is empty''), Some p, w1\<lparr>trace := trace w @ [EvRefresh]\<rparr>)"
  using assms needsRefresh_trace [OF assms(4)]
  by (simp add: ensureToken_def call_refresh_def)


lemma built_provider_built:
  "newReverseProxy test_endpoint Inr ''http://backend''
     [WithTokenFetcherFunc (Some (\<lambda>u. ''bad-token'')), WithTokenRefreshURL ''http://token''] =
   Inr (''http://backend'', built_provider)"
  by (simp add: newReverseProxy_def new_tokenProvider_def set_token_def built_provider_def
      TrimSpace_def isSpace_def Let_def)

lemma built_provider_forceRefresh:
  "forceRefresh test_clock (Some built_provider) test_world =
     (Inr ''new-token'',
      Some (built_provider\<lparr>refreshAt := 4570 * Second, token := ''new-token''\<rparr>),
      \<lparr>ticks = 1, trace = [EvRefresh]\<rparr>)"
  by (simp add: built_provider_def test_endpoint_def fetchTokenFromURL_def StatusOK_def
      int64_wrap_def test_defs provider_defs)

text \<open>
  C5. A provider whose cached token is not blank and whose \<^verbatim>\<open>refreshAt\<close> is the zero
  time, or not before the time read by the call, returns the cached token: the provider
  is unchanged and the refresh function is not called. The same holds for any number of
  calls in a row whose clock readings are not after \<^verbatim>\<open>refreshAt\<close>. Counting from any
  successful call, that call and the following calls before the deadline it left behind
  invoke the refresh function at most once in total, and return the same token.
\<close>

theorem ensure_cache_hit:
  "(TrimSpace (token p) \<noteq> []
      \<and> (IsZero (refreshAt p) \<or> \<not> After (clock (ticks w)) (refreshAt p)) \<longrightarrow>
      (\<exists>w'. ensureToken clock (Some p) w = (Inr (token p), Some p, w') \<and> trace w' = trace w))
   \<and> (TrimSpace (token p) \<noteq> []
        \<and> (IsZero (refreshAt p)
            \<or> (\<forall>k. ticks w \<le> k \<and> k < ticks w + n \<longrightarrow> \<not> After (clock k) (refreshAt p))) \<longrightarrow>
      (\<exists>w'. ensureToken_repeat clock n (Some p) w = (replicate n (Inr (token p)), Some p, w')
         \<and> trace w' = trace w))
   \<and> (ensureToken clock po w = (Inr tok, Some p1, w1)
        \<and> (IsZero (refreshAt p1)
            \<or> (\<forall>k. ticks w1 \<le> k \<and> k < ticks w1 + n \<longrightarrow> \<not> After (clock k) (refreshAt p1))) \<longrightarrow>
      (\<exists>w2. ensureToken_repeat clock n (Some p1) w1 = (replicate n (Inr tok), Some p1, w2)
         \<and> refreshes (trace w2) \<le> refreshes (trace w) + 1))"
proof (intro conjI impI)
  assume a: "TrimSpace (token p) \<noteq> []
      \<and> (IsZero (refreshAt p) \<or> \<not> After (clock (ticks w)) (refreshAt p))"
  then have "ensureToken clock (Some p) w =
     (Inr (token p), Some p,
      if refresh p = None \<or> IsZero (refreshAt p) then w else w\<lparr>ticks := Suc (ticks w)\<rparr>)"
    by (intro ensure_hit) simp_all
  then show "\<exists>w'. ensureToken clock (Some p) w = (Inr (token p), Some p, w') \<and> trace w' = trace w"
    by simp
next
  assume "TrimSpace (token p) \<noteq> []
        \<and> (IsZero (refreshAt p)
            \<or> (\<forall>k. ticks w \<le> k \<and> k < ticks w + n \<longrightarrow> \<not> After (clock k) (refreshAt p)))"
  then show "\<exists>w'. ensureToken_repeat clock n (Some p) w = (replicate n (Inr (token p)), Some p, w')
         \<and> trace w' = trace w"
    by (intro ensure_repeat_hit) simp_all
next
  assume a: "ensureToken clock po w = (Inr tok, Some p1, w1)
        \<and> (IsZero (refreshAt p1)
            \<or> (\<forall>k. ticks w1 \<le> k \<and> k < ticks w1 + n \<longrightarrow> \<not> After (clock k) (refreshAt p1)))"
  then have e: "ensureToken clock po w = (Inr tok, Some p1, w1)" by simp
  from ensure_ok_nonblank [OF e] have tk: "token p1 = tok" "TrimSpace (token p1) \<noteq> []" by auto
  from ensureToken_trace [OF e] have r1: "refreshes (trace w1) \<le> refreshes (trace w) + 1"
    by (auto simp: refreshes_def)
  have "\<exists>w'. ensureToken_repeat clock n (Some p1) w1 = (replicate n (Inr (token p1)), Some p1, w')
     \<and> trace w' = trace w1"
    using tk(2) a by (intro ensure_repeat_hit) simp_all
  with tk r1 show "\<exists>w2. ensureToken_repeat clock n (Some p1) w1 = (replicate n (Inr tok), Some p1, w2)
         \<and> refreshes (trace w2) \<le> refreshes (trace w) + 1"
    by auto
qed

theorem ensure_cache_hit_witness:
  "(\<exists>w'. ensureToken_repeat test_clock 3 (Some fresh_provider) test_world =
      ([Inr ''bad-token'', Inr ''bad-token'', Inr ''bad-token''], Some fresh_provider, w')
      \<and> trace w' = [])
   \<and> (\<exists>w2. ensureToken_repeat test_clock 2
        (Some (cold_provider\<lparr>refreshAt := 4570 * Second, token := ''new-token''\<rparr>))
        \<lparr>ticks = 1, trace = [EvRefresh]\<rparr> =
      ([Inr ''new-token'', Inr ''new-token''],
       Some (cold_provider\<lparr>refreshAt := 4570 * Second, token := ''new-token''\<rparr>), w2)
      \<and> refreshes (trace w2) \<le> 1)"
proof -
  have a: "TrimSpace (token fresh_provider) \<noteq> []
      \<and> (IsZero (refreshAt fresh_provider)
          \<or> (\<forall>k. ticks test_world \<le> k \<and> k < ticks test_world + 3 \<longrightarrow>
                \<not> After (test_clock k) (refreshAt fresh_provider)))"
    by (simp add: fresh_provider_def test_defs TrimSpace_def isSpace_def After_def Second_def)
  let ?warm = "cold_provider\<lparr>refreshAt := 4570 * Second, token := ''new-token''\<rparr>"
  let ?w1 = "\<lparr>ticks = 1, trace = [EvRefresh]\<rparr>"
  have b: "ensureToken test_clock (Some cold_provider) test_world = (Inr ''new-token'', Some ?warm, ?w1)
      \<and> (IsZero (refreshAt ?warm)
          \<or> (\<forall>k. ticks ?w1 \<le> k \<and> k < ticks ?w1 + 2 \<longrightarrow>
                \<not> After (test_clock k) (refreshAt ?warm)))"
    by (simp add: cold_provider_def test_defs provider_defs)
  from ensure_cache_hit [where p = fresh_provider and w = test_world and n = 3 and clock = test_clock,
      THEN conjunct2, THEN conjunct1, THEN mp, OF a]
    ensure_cache_hit [where po = "Some cold_provider" and w = test_world and n = 2
      and clock = test_clock and ?p1.0 = ?warm and ?w1.0 = ?w1 and tok = "''new-token''",
      THEN conjunct2, THEN conjunct2, THEN mp, OF b]
  show ?thesis
    by (simp add: fresh_provider_def test_defs refreshes_def numeral_3_eq_3 numeral_2_eq_2)
qed


lemma ensureToken_empty_cache_refreshes:
  assumes "refresh p \<noteq> None" and "token p = []"
  shows "trace (snd (snd (ensureToken clock (Some p) w))) = trace w @ [EvRefresh]"
proof -
  from assms(1) obtain rf where rf: "refresh p = Some rf" by auto
  have nr: "needsRefresh clock p w = (True, w)"
    using assms(2) by (simp add: needsRefresh_def)
  show ?thesis
  proof (cases "rf (trace w)")
    case (Inl err)
    with rf nr show ?thesis by (simp add: ensureToken_def call_refresh_def)
  next
    case (Inr res)
    obtain raw ttl where res: "res = (raw, ttl)" by (cases res)
    obtain p' w3 where sw: "setWithExpiry clock (TrimSpace raw) ttl p
        (w\<lparr>trace := trace w @ [EvRefresh]\<rparr>) = (p', w3)"
      by (cases "setWithExpiry clock (TrimSpace raw) ttl p (w\<lparr>trace := trace w @ [EvRefresh]\<rparr>)")
    from setWithExpiry_trace [OF sw] have "trace w3 = trace w @ [EvRefresh]" by simp
    with rf nr Inr res sw show ?thesis
      by (simp add: ensureToken_def call_refresh_def Let_def)
  qed
qed

lemma unseeded_provider_built:
  "newReverseProxy test_endpoint Inr ''http://backend''
     [WithTokenFetcherFunc (Some blank_fetcher), WithTokenRefreshURL ''http://token''] =
   Inr (''http://backend'', unseeded_provider)"
  by (simp add: newReverseProxy_def new_tokenProvider_def set_token_def unseeded_provider_def
      blank_fetcher_def TrimSpace_def isSpace_def Let_def)

lemma unseeded_provider_ensureToken:
  "ensureToken test_clock (Some unseeded_provider) test_world =
     (Inr ''new-token'',
      Some (unseeded_provider\<lparr>refreshAt := 4570 * Second, token := ''new-token''\<rparr>),
      \<lparr>ticks = 1, trace = [EvRefresh]\<rparr>)"
  by (simp add: unseeded_provider_def test_endpoint_def fetchTokenFromURL_def StatusOK_def
      int64_wrap_def test_defs provider_defs)

text \<open>
  C6, as the specification states it, fails for the initial fetch. With a fetcher that
  returns the empty string and a refresh endpoint that answers with \<^verbatim>\<open>new-token\<close>
  (the configuration of the third test, the fetcher blank), the blank result is ignored
  and \<^verbatim>\<open>ensureToken\<close> succeeds with the refreshed token instead of failing with the
  empty-credential error.
\<close>

theorem blank_initial_fetch_counterexample:
  "newReverseProxy test_endpoint Inr ''http://backend''
     [WithTokenFetcherFunc (Some blank_fetcher), WithTokenRefreshURL ''http://token''] =
     Inr (''http://backend'', unseeded_provider)
   \<and> fetch unseeded_provider = Some blank_fetcher \<and> TrimSpace (blank_fetcher ()) = []
   \<and> ensureToken test_clock (Some unseeded_provider) test_world =
       (Inr ''new-token'',
        Some (unseeded_provider\<lparr>refreshAt := 4570 * Second, token := ''new-token''\<rparr>),
        \<lparr>ticks = 1, trace = [EvRefresh]\<rparr>)"
  using unseeded_provider_built unseeded_provider_ensureToken
  by (simp add: unseeded_provider_def blank_fetcher_def)

text \<open>
  C6, amended. For a provider that the program can hold: after a successful
  \<^verbatim>\<open>ensureToken\<close> or \<^verbatim>\<open>forceRefresh\<close> the stored token is the returned value, it is
  not empty and it equals its own trimmed form. A blank result of the refresh function
  makes \<^verbatim>\<open>forceRefresh\<close>, and \<^verbatim>\<open>ensureToken\<close> when it refreshes, fail with the
  empty-credential error, the provider unchanged. A blank result of the initial fetch is
  not installed, the cache stays empty: \<^verbatim>\<open>ensureToken\<close> then fails with the
  empty-credential error when no refresh function is configured, and calls the refresh
  function when one is.
\<close>

theorem installed_token_never_blank:
  "(reachable p \<longrightarrow>
      (ensureToken clock (Some p) w = (Inr tok, po', w') \<longrightarrow>
         (\<exists>p'. po' = Some p' \<and> reachable p' \<and> token p' = tok \<and> tok \<noteq> [] \<and> TrimSpace tok = tok))
    \<and> (forceRefresh clock (Some p) w = (Inr tok, po', w') \<longrightarrow>
         (\<exists>p'. po' = Some p' \<and> reachable p' \<and> token p' = tok \<and> tok \<noteq> [] \<and> TrimSpace tok = tok)))
   \<and> (refresh p = Some rf \<and> rf (trace w) = Inr (raw, ttl) \<and> TrimSpace raw = [] \<longrightarrow>
        forceRefresh clock (Some p) w =
          (Inl (errors_New ''token is empty''), Some p, w\<lparr>trace := trace w @ [EvRefresh]\<rparr>)
      \<and> (\<forall>w1. needsRefresh clock p w = (True, w1) \<longrightarrow>
            ensureToken clock (Some p) w =
              (Inl (errors_New ''token is empty''), Some p, w1\<lparr>trace := trace w @ [EvRefresh]\<rparr>))
      \<and> classify (errors_New ''token is empty'') = EmptyCredential)
   \<and> (newReverseProxy endpoint url_Parse backendURL opts = Inr (target, p0)
        \<and> fetch p0 = Some f \<and> TrimSpace (f ()) = [] \<longrightarrow>
        token p0 = []
      \<and> (refresh p0 = None \<longrightarrow>
            ensureToken clock (Some p0) w = (Inl (errors_New ''token is empty''), Some p0, w))
      \<and> (refresh p0 \<noteq> None \<longrightarrow>
            trace (snd (snd (ensureToken clock (Some p0) w))) = trace w @ [EvRefresh]))"
proof (intro conjI impI allI)
  assume r: "reachable p" and e: "ensureToken clock (Some p) w = (Inr tok, po', w')"
  from ensure_ok_token [OF e reachable_trimmed [OF r]] obtain p' where
    p': "po' = Some p'" "token p' = tok" "tok \<noteq> []" "TrimSpace tok = tok" by auto
  from r e p'(1) have "reachable p'" by (auto intro: reachable.ensured)
  with p' show "\<exists>p'. po' = Some p' \<and> reachable p' \<and> token p' = tok \<and> tok \<noteq> [] \<and> TrimSpace tok = tok"
    by auto
next
  assume r: "reachable p" and e: "forceRefresh clock (Some p) w = (Inr tok, po', w')"
  from forceRefresh_ok_token [OF e] obtain p' where
    p': "po' = Some p'" "token p' = tok" "tok \<noteq> []" "TrimSpace tok = tok" by auto
  from r e p'(1) have "reachable p'" by (auto intro: reachable.refreshed)
  with p' show "\<exists>p'. po' = Some p' \<and> reachable p' \<and> token p' = tok \<and> tok \<noteq> [] \<and> TrimSpace tok = tok"
    by auto
next
  assume "refresh p = Some rf \<and> rf (trace w) = Inr (raw, ttl) \<and> TrimSpace raw = []"
  then show "forceRefresh clock (Some p) w =
      (Inl (errors_New ''token is empty''), Some p, w\<lparr>trace := trace w @ [EvRefresh]\<rparr>)"
    by (intro blank_refresh_force [where raw = raw and ttl = ttl and rf = rf]) simp_all
next
  fix w1
  assume "refresh p = Some rf \<and> rf (trace w) = Inr (raw, ttl) \<and> TrimSpace raw = []"
    and "needsRefresh clock p w = (True, w1)"
  then show "ensureToken clock (Some p) w =
      (Inl (errors_New ''token is empty''), Some p, w1\<lparr>trace := trace w @ [EvRefresh]\<rparr>)"
    by (intro blank_refresh_ensure [where raw = raw and ttl = ttl and rf = rf]) simp_all
next
  show "classify (errors_New ''token is empty'') = EmptyCredential" by simp
next
  assume "newReverseProxy endpoint url_Parse backendURL opts = Inr (target, p0)
      \<and> fetch p0 = Some f \<and> TrimSpace (f ()) = []"
  then show "token p0 = []"
    by (intro newReverseProxy_blank_fetch [where f = f and opts = opts and endpoint = endpoint
          and url_Parse = url_Parse and backendURL = backendURL and target = target]) simp_all
next
  assume a: "newReverseProxy endpoint url_Parse backendURL opts = Inr (target, p0)
      \<and> fetch p0 = Some f \<and> TrimSpace (f ()) = []" and n: "refresh p0 = None"
  from a have "token p0 = []"
    by (intro newReverseProxy_blank_fetch [where f = f and opts = opts and endpoint = endpoint
          and url_Parse = url_Parse and backendURL = backendURL and target = target]) simp_all
  with n show "ensureToken clock (Some p0) w = (Inl (errors_New ''token is empty''), Some p0, w)"
    by (simp add: ensureToken_def)
next
  assume a: "newReverseProxy endpoint url_Parse backendURL opts = Inr (target, p0)
      \<and> fetch p0 = Some f \<and> TrimSpace (f ()) = []" and n: "refresh p0 \<noteq> None"
  from a have "token p0 = []"
    by (intro newReverseProxy_blank_fetch [where f = f and opts = opts and endpoint = endpoint
          and url_Parse = url_Parse and backendURL = backendURL and target = target]) simp_all
  with n show "trace (snd (snd (ensureToken clock (Some p0) w))) = trace w @ [EvRefresh]"
    by (rule ensureToken_empty_cache_refreshes)
qed

theorem installed_token_never_blank_witness:
  "reachable built_provider
   \<and> (\<exists>p'. reachable p' \<and> token p' = ''new-token'' \<and> TrimSpace ''new-token'' = ''new-token'')
   \<and> forceRefresh test_clock (Some (test_provider\<lparr>refresh := Some blank_refresh\<rparr>)) test_world =
       (Inl (errors_New ''token is empty''), Some (test_provider\<lparr>refresh := Some blank_refresh\<rparr>),
        \<lparr>ticks = 0, trace = [EvRefresh]\<rparr>)
   \<and> token unseeded_provider = []
   \<and> trace (snd (snd (ensureToken test_clock (Some unseeded_provider) test_world))) = [EvRefresh]"
proof -
  have r: "reachable built_provider"
    using built_provider_built by (rule reachable.built)
  have b: "refresh (test_provider\<lparr>refresh := Some blank_refresh\<rparr>) = Some blank_refresh
      \<and> blank_refresh (trace test_world) = Inr (''  '', 0) \<and> TrimSpace ''  '' = []"
    by (simp add: blank_refresh_def TrimSpace_def isSpace_def)
  have c: "newReverseProxy test_endpoint Inr ''http://backend''
        [WithTokenFetcherFunc (Some blank_fetcher), WithTokenRefreshURL ''http://token''] =
      Inr (''http://backend'', unseeded_provider)
      \<and> fetch unseeded_provider = Some blank_fetcher \<and> TrimSpace (blank_fetcher ()) = []"
    using unseeded_provider_built by (simp add: unseeded_provider_def blank_fetcher_def)
  have d: "refresh unseeded_provider \<noteq> None"
    by (simp add: unseeded_provider_def)
  from installed_token_never_blank [where p = built_provider, THEN conjunct1, THEN mp, OF r,
      THEN conjunct2, THEN mp, OF built_provider_forceRefresh]
    installed_token_never_blank [where p = "test_provider\<lparr>refresh := Some blank_refresh\<rparr>"
      and w = test_world and clock = test_clock,
      THEN conjunct2, THEN conjunct1, THEN mp, OF b, THEN conjunct1]
    installed_token_never_blank [THEN conjunct2, THEN conjunct2, THEN mp, OF c, THEN conjunct1]
    installed_token_never_blank [where w = test_world and clock = test_clock,
      THEN conjunct2, THEN conjunct2, THEN mp, OF c, THEN conjunct2, THEN conjunct2, THEN mp, OF d]
    r
  show ?thesis by (auto simp: test_world_def)
qed

text \<open>
  C7, as the specification states it, fails: the provider of the test whose fetcher
  returns the empty string has no refresh function and no cached token, and
  \<^verbatim>\<open>ensureToken\<close> fails with \<^verbatim>\<open>token is empty\<close>, the empty-credential error, not
  with a not-configured error.
\<close>

theorem ensure_without_source_counterexample:
  "refresh empty_provider = None \<and> TrimSpace (token empty_provider) = []
   \<and> ensureToken test_clock (Some empty_provider) test_world =
       (Inl (errors_New ''token is empty''), Some empty_provider, test_world)
   \<and> classify (errors_New ''token is empty'') \<noteq> NotConfigured"
  by (simp add: ensureToken_def empty_provider_def TrimSpace_def)

text \<open>
  C7, amended. An existing provider without refresh function and with a blank cached
  token fails with the empty-credential error and is unchanged; an existing provider
  without refresh function never fails with a not-configured error; the not-configured
  error is the answer of the \<^verbatim>\<open>nil\<close> provider.
\<close>

theorem ensure_without_refresh:
  "(refresh p = None \<and> TrimSpace (token p) = [] \<longrightarrow>
      ensureToken clock (Some p) w = (Inl (errors_New ''token is empty''), Some p, w)
      \<and> classify (errors_New ''token is empty'') = EmptyCredential)
   \<and> (refresh p = None \<and> ensureToken clock (Some p) w = (Inl e, po', w') \<longrightarrow>
        classify e \<noteq> NotConfigured)
   \<and> ensureToken clock None w = (Inl (errors_New ''token provider is not configured''), None, w)
   \<and> classify (errors_New ''token provider is not configured'') = NotConfigured"
  by (auto simp: ensureToken_def split: if_splits)

theorem ensure_without_refresh_witness:
  "ensureToken test_clock (Some empty_provider) test_world =
     (Inl (errors_New ''token is empty''), Some empty_provider, test_world)
   \<and> classify (errors_New ''token is empty'') = EmptyCredential"
proof -
  have a: "refresh empty_provider = None \<and> TrimSpace (token empty_provider) = []"
    by (simp add: empty_provider_def TrimSpace_def)
  from ensure_without_refresh [THEN conjunct1, THEN mp, OF a] show ?thesis .
qed

section \<open>The remote credential fetcher\<close>

lemma int64_wrap_id: "- (2 ^ 63) \<le> x \<Longrightarrow> x < 2 ^ 63 \<Longrightarrow> int64_wrap x = x"
  by (simp add: int64_wrap_def)

lemma fetchTokenFromURL_behaviour:
  "(status \<noteq> StatusOK \<longrightarrow>
      fetchTokenFromURL \<lparr>NewRequest_err = None, Do_result = Inr (status, decoded)\<rparr> =
        Inl (errors_New ''token refresh returned non-200''))
   \<and> (TrimSpace (AccessToken pl) = [] \<longrightarrow>
        fetchTokenFromURL \<lparr>NewRequest_err = None, Do_result = Inr (StatusOK, Inr pl)\<rparr> =
          Inl (errors_New ''token refresh returned empty token''))
   \<and> (TrimSpace (AccessToken pl) \<noteq> [] \<and> ExpiresIn pl \<le> 0 \<longrightarrow>
        fetchTokenFromURL \<lparr>NewRequest_err = None, Do_result = Inr (StatusOK, Inr pl)\<rparr> =
          Inr (AccessToken pl, 0))
   \<and> (TrimSpace (AccessToken pl) \<noteq> [] \<and> 0 < ExpiresIn pl \<and> ExpiresIn pl \<le> 9223372036 \<longrightarrow>
        fetchTokenFromURL \<lparr>NewRequest_err = None, Do_result = Inr (StatusOK, Inr pl)\<rparr> =
          Inr (AccessToken pl, ExpiresIn pl * Second))"
  by (auto simp: fetchTokenFromURL_def int64_wrap_id Second_def)


text \<open>
  C9. The multiplication of \<^verbatim>\<open>expires_in\<close> by \<^verbatim>\<open>time.Second\<close> is a 64-bit
  multiplication. For \<^verbatim>\<open>expires_in = 9223372037\<close> (a 200 response, a token that is
  not blank) it wraps around and the returned time-to-live is negative, not 9223372037
  seconds.
\<close>

theorem fetchTokenFromURL_overflow:
  "fetchTokenFromURL \<lparr>NewRequest_err = None,
      Do_result = Inr (200, Inr \<lparr>AccessToken = ''tok'', ExpiresIn = 9223372037\<rparr>)\<rparr> =
     Inr (''tok'', - 9223372036709551616)"
  by (simp add: fetchTokenFromURL_def StatusOK_def TrimSpace_def isSpace_def int64_wrap_def Second_def)


end
